theory Spec2Isabelle
  imports Main
begin

section \<open>Values, errors and JavaScript truthiness\<close>

text \<open>
  The bridge is TypeScript. Values of type \<^verbatim>\<open>any\<close> (the arguments of a custom request,
  JSON schemas, snippets) are modelled by a small datatype of JavaScript values.
\<close>

datatype jsvalue =
    JUndefined
  | JString string
  | JNumber int
  | JObject "(string \<times> jsvalue) list"

text \<open>
  Every \<^verbatim>\<open>throw\<close> and every rejected promise is a value of this type. The two errors
  about a missing id carry the id; \<open>External\<close> is a rejection raised by a collaborator
  outside the bridge (a provider, the connection manager, a session).
\<close>

datatype error =
    ContributionNotFound string string
  | SessionNotFound jsvalue
  | ProgramNotFound
  | NoExecutable
  | CannotLaunch
  | TypeError string
  | External string

text \<open>
  \<^verbatim>\<open>a || b\<close> yields \<^verbatim>\<open>a\<close> when \<^verbatim>\<open>a\<close> is truthy. A string is truthy when it is defined
  and not empty; an array or an object is truthy whenever it is defined.
\<close>

definition truthy :: "string option \<Rightarrow> bool" where
  "truthy s = (case s of None \<Rightarrow> False | Some v \<Rightarrow> v \<noteq> [])"


definition or_object :: "'a option \<Rightarrow> 'a option \<Rightarrow> 'a option" where
  "or_object a b = (case a of Some x \<Rightarrow> Some x | None \<Rightarrow> b)"

definition or_empty :: "'a list option \<Rightarrow> 'a list" where
  "or_empty a = (case a of Some xs \<Rightarrow> xs | None \<Rightarrow> [])"

text \<open>\<^verbatim>\<open>info && info.f\<close>: undefined when \<^verbatim>\<open>info\<close> is, the field otherwise.\<close>

definition and_field :: "'a option \<Rightarrow> ('a \<Rightarrow> 'b option) \<Rightarrow> 'b option" where
  "and_field info f = (case info of None \<Rightarrow> None | Some i \<Rightarrow> f i)"

section \<open>Package metadata and the platform\<close>

text \<open>
  \<^verbatim>\<open>PluginPackageDebuggersContribution\<close> extends \<^verbatim>\<open>PlatformSpecificAdapterContribution\<close>:
  the unqualified program, arguments and runtime, and one optional record per platform.
\<close>

record PlatformSpecificAdapterContribution =
  program :: "string option"
  args :: "string list option"
  runtime :: "string option"
  runtimeArgs :: "string list option"

record PluginPackageDebuggersContribution = PlatformSpecificAdapterContribution +
  label :: "string option"
  languages :: "string list option"
  configurationSnippets :: "jsvalue list option"
  adapterExecutableCommand :: "string option"
  win :: "PlatformSpecificAdapterContribution option"
  winx86 :: "PlatformSpecificAdapterContribution option"
  windows :: "PlatformSpecificAdapterContribution option"
  osx :: "PlatformSpecificAdapterContribution option"
  linux :: "PlatformSpecificAdapterContribution option"

text \<open>
  The ambient globals the resolver reads: \<^verbatim>\<open>isWindows\<close>, \<^verbatim>\<open>isOSX\<close> and whether
  \<^verbatim>\<open>process.env\<close> has the property \<^verbatim>\<open>PROCESSOR_ARCHITEW6432\<close> (set by Windows for a
  32-bit process running on a 64-bit system).
\<close>

record platform =
  isWindows :: bool
  isOSX :: bool
  env_PROCESSOR_ARCHITEW6432 :: bool

record DebugConfiguration =
  configType :: string
  configName :: string
  configRest :: "(string \<times> jsvalue) list"

text \<open>
  \<^verbatim>\<open>DebugAdapterExecutable\<close>: \<^verbatim>\<open>{command, args}\<close> or \<^verbatim>\<open>{modulePath, args}\<close>; a field is
  \<open>None\<close> when the object does not have the property.
\<close>

record DebugAdapterExecutable =
  exe_command :: "string option"
  exe_modulePath :: "string option"
  exe_args :: "string list option"

section \<open>PluginDebugAdapterContribution\<close>

definition toPlatformInfo ::
  "platform \<Rightarrow> PluginPackageDebuggersContribution \<Rightarrow> PlatformSpecificAdapterContribution option" where
  "toPlatformInfo pf executable =
     (if isWindows pf \<and> \<not> env_PROCESSOR_ARCHITEW6432 pf
        then or_object (or_object (winx86 executable) (win executable)) (windows executable)
      else if isWindows pf
        then or_object (win executable) (windows executable)
      else if isOSX pf
        then osx executable
      else linux executable)"







text \<open>
  \<^verbatim>\<open>Object.keys(o)\<close> throws a TypeError on \<^verbatim>\<open>undefined\<close>; on an array it lists the
  indices. \<^verbatim>\<open>getSchemaAttributes\<close> returns the empty list when the snippet table is truthy
  and otherwise maps over the keys of the table.
\<close>

definition object_keys :: "'a list option \<Rightarrow> error + nat list" where
  "object_keys obj =
     (case obj of
        None \<Rightarrow> Inl (TypeError ''Cannot convert undefined or null to object'')
      | Some xs \<Rightarrow> Inr [0..<length xs])"

definition getSchemaAttributes :: "PluginPackageDebuggersContribution \<Rightarrow> error + jsvalue list" where
  "getSchemaAttributes packageContribution =
     (let snippets = configurationSnippets packageContribution
      in (case snippets of
            Some _ \<Rightarrow> Inr []
          | None \<Rightarrow>
              (case object_keys snippets of
                 Inl e \<Rightarrow> Inl e
               | Inr ks \<Rightarrow> Inr (map (\<lambda>request. or_empty snippets ! request) ks))))"

definition getConfigurationSnippets :: "PluginPackageDebuggersContribution \<Rightarrow> jsvalue list" where
  "getConfigurationSnippets packageContribution = or_empty (configurationSnippets packageContribution)"

section \<open>Node's \<^verbatim>\<open>path.posix.join\<close>\<close>







section \<open>Wire and host forms of a breakpoint\<close>

text \<open>
  A URI object is its components; \<^verbatim>\<open>URI.parse\<close>, \<^verbatim>\<open>URI.revive\<close> and \<^verbatim>\<open>toString\<close> belong to
  the library \<^verbatim>\<open>vscode-uri\<close> and are parameters of the translation.
\<close>

record UriComponents =
  scheme :: string
  authority :: string
  path :: string
  query :: string
  fragment :: string

record uri_library =
  uri_parse :: "string \<Rightarrow> UriComponents"
  uri_revive :: "UriComponents \<Rightarrow> UriComponents"
  uri_toString :: "UriComponents \<Rightarrow> string"

record Range =
  startLineNumber :: int
  startColumn :: int
  endLineNumber :: int
  endColumn :: int

record Location =
  uri :: UriComponents
  location_range :: Range

text \<open>The wire form (\<^verbatim>\<open>Breakpoint\<close> of the plugin API model).\<close>

record Breakpoint =
  enabled :: bool
  condition :: "string option"
  hitCondition :: "string option"
  logMessage :: "string option"
  location :: "Location option"

text \<open>
  The host form: a \<^verbatim>\<open>SourceBreakpoint\<close> marker (\<^verbatim>\<open>uri\<close>, \<^verbatim>\<open>enabled\<close>, \<^verbatim>\<open>raw\<close>), and the
  \<^verbatim>\<open>DebugBreakpoint\<close> built around such an origin together with the current session.
\<close>

record RawSourceBreakpoint =
  raw_line :: int
  raw_column :: "int option"
  raw_condition :: "string option"
  raw_hitCondition :: "string option"
  raw_logMessage :: "string option"

record SourceBreakpoint =
  sb_uri :: string
  sb_enabled :: bool
  raw :: RawSourceBreakpoint

record DebugBreakpoint =
  origin :: SourceBreakpoint
  bp_session :: "string option"

section \<open>Calls across the boundary\<close>

record DebuggerDescription =
  description_type :: string
  description_label :: "string option"

text \<open>
  Calls issued on the \<^verbatim>\<open>DebugMain\<close> proxy. The transport carries the arguments of a call
  by position, so \<open>CustomRequest\<close> holds the argument list exactly as the caller passed it.
\<close>

datatype main_call =
    RegisterDebugConfigurationProvider string DebuggerDescription
  | UnregisterDebugConfigurationProvider string
  | CustomRequest "jsvalue list"

text \<open>Notifications issued on the \<^verbatim>\<open>DebugExt\<close> proxy by the host side.\<close>

datatype ext_call =
    BreakpointsDidChange "Breakpoint list" "Breakpoint list" "Breakpoint list" "Breakpoint list"
  | SessionDidCreate string
  | SessionDidDestroy string
  | SessionDidChange "string option"
  | OnSessionCustomEvent string string jsvalue

section \<open>The extension side: DebugExtImpl\<close>

text \<open>
  \<^verbatim>\<open>startDebugAdapter\<close> spawns the command, or forks the module, with the descriptor's
  arguments; the communication provider returned is the child's stdin, stdout and kill.
\<close>

datatype ChildProcess =
    Spawned string "string list option"
  | Forked string "string list option"

definition startDebugAdapter :: "DebugAdapterExecutable \<Rightarrow> error + ChildProcess" where
  "startDebugAdapter executable =
     (case exe_command executable of
        Some command \<Rightarrow> Inr (Spawned command (exe_args executable))
      | None \<Rightarrow>
          (case exe_modulePath executable of
             Some modulePath \<Rightarrow> Inr (Forked modulePath (exe_args executable))
           | None \<Rightarrow> Inl CannotLaunch))"

text \<open>
  \<^verbatim>\<open>PluginDebugSession\<close>. The stored \<open>customRequest\<close> is a function of the command and its
  arguments; its value is the call it issues on the \<^verbatim>\<open>DebugMain\<close> proxy.
\<close>

record PluginDebugSession =
  session_id :: string
  configuration :: DebugConfiguration
  communicationProvider :: ChildProcess
  customRequest :: "string \<Rightarrow> jsvalue \<Rightarrow> main_call"
  session_type :: string
  session_name :: string

definition new_PluginDebugSession ::
  "string \<Rightarrow> DebugConfiguration \<Rightarrow> ChildProcess \<Rightarrow> (string \<Rightarrow> jsvalue \<Rightarrow> main_call)
     \<Rightarrow> PluginDebugSession" where
  "new_PluginDebugSession sid config provider forwarder =
     \<lparr>session_id = sid, configuration = config, communicationProvider = provider,
      customRequest = forwarder, session_type = configType config,
      session_name = configName config\<rparr>"

text \<open>
  A \<^verbatim>\<open>DebugAdapterContribution\<close>: every capability is optional (\<open>None\<close> when the object
  does not have it), and a capability that is called may reject.
\<close>

record DebugAdapterContribution =
  adapter_type :: string
  adapter_languages :: "(error + string list option) option"
  adapter_getSchemaAttributes :: "(error + jsvalue list) option"
  adapter_getConfigurationSnippets :: "(error + jsvalue list) option"
  adapter_provideDebugAdapterExecutable ::
    "(DebugConfiguration \<Rightarrow> error + DebugAdapterExecutable option) option"
  adapter_provideDebugConfigurations ::
    "(string option \<Rightarrow> error + DebugConfiguration list option) option"
  adapter_resolveDebugConfiguration ::
    "(DebugConfiguration \<Rightarrow> string option \<Rightarrow> error + DebugConfiguration option) option"

text \<open>
  The plugin's \<^verbatim>\<open>theia.DebugConfigurationProvider\<close>; both methods are optional and are
  called with an undefined folder.
\<close>

record DebugConfigurationProvider =
  provider_provideDebugConfigurations :: "(error + DebugConfiguration list option) option"
  provider_resolveDebugConfiguration ::
    "(DebugConfiguration \<Rightarrow> error + DebugConfiguration option) option"

datatype ext_event =
    DidReceiveDebugSessionCustomEvent string jsvalue PluginDebugSession
  | DidStartDebugSession PluginDebugSession
  | DidTerminateDebugSession PluginDebugSession
  | DidChangeActiveDebugSession "PluginDebugSession option"
  | DidChangeBreakpoints "Breakpoint list" "Breakpoint list" "Breakpoint list"

text \<open>
  The fields of \<^verbatim>\<open>DebugExtImpl\<close>, with the calls issued on the proxy and the events
  fired on the emitters, oldest first.
\<close>

record DebugExtImpl =
  debugSessions :: "string \<rightharpoonup> PluginDebugSession"
  debugAdapterContributions :: "string \<rightharpoonup> DebugAdapterContribution"
  packageContributions :: "string \<rightharpoonup> PluginPackageDebuggersContribution"
  activeDebugSession :: "PluginDebugSession option"
  breakpoints :: "Breakpoint list"
  proxy_calls :: "main_call list"
  fired :: "ext_event list"

text \<open>
  The collaborators of the extension side: the command registry, the connection manager,
  the inherited \<^verbatim>\<open>VSCodeDebugAdapterContribution\<close> and the \<^verbatim>\<open>start\<close> and \<^verbatim>\<open>stop\<close> of the
  inherited \<^verbatim>\<open>DebugAdapterSessionImpl\<close>. \<open>session_stop\<close> is given the session registry as
  it is while the session stops, and its value is what the promise of \<^verbatim>\<open>stop()\<close> settles
  to. \<open>session_start\<close> is \<open>Inl\<close> when \<^verbatim>\<open>start\<close> throws in the call itself; the promise it
  returns is not awaited by \<^verbatim>\<open>$createDebugSession\<close>.
\<close>

datatype Connection = Connection string

datatype PluginWebSocketChannel = PluginWebSocketChannel Connection

record ext_env =
  executeCommand :: "string \<Rightarrow> error + DebugAdapterExecutable option"
  ensureConnection :: "string \<Rightarrow> error + Connection"
  vscode_contribution :: "string \<Rightarrow> string \<Rightarrow> DebugAdapterContribution"
  session_start :: "PluginDebugSession \<Rightarrow> PluginWebSocketChannel \<Rightarrow> error + unit"
  session_stop :: "PluginDebugSession \<Rightarrow> (string \<rightharpoonup> PluginDebugSession) \<Rightarrow> error + unit"

subsection \<open>DebugPluginContribution\<close>

definition plugin_provideDebugConfigurations ::
  "DebugConfigurationProvider \<Rightarrow> string option \<Rightarrow> error + DebugConfiguration list" where
  "plugin_provideDebugConfigurations provider workspaceFolderUri =
     (case provider_provideDebugConfigurations provider of
        Some call \<Rightarrow>
          (case call of
             Inl e \<Rightarrow> Inl e
           | Inr (Some result) \<Rightarrow> Inr result
           | Inr None \<Rightarrow> Inr [])
      | None \<Rightarrow> Inr [])"

definition plugin_resolveDebugConfiguration ::
  "DebugConfigurationProvider \<Rightarrow> DebugConfiguration \<Rightarrow> string option
     \<Rightarrow> error + DebugConfiguration option" where
  "plugin_resolveDebugConfiguration provider config workspaceFolderUri =
     (case provider_resolveDebugConfiguration provider of
        Some resolve \<Rightarrow> resolve config
      | None \<Rightarrow> Inr None)"

definition DebugPluginContribution ::
  "ext_env \<Rightarrow> string \<Rightarrow> DebugConfigurationProvider \<Rightarrow> string \<Rightarrow> DebugAdapterContribution" where
  "DebugPluginContribution env debugType provider pluginPath =
     (vscode_contribution env debugType pluginPath)
       \<lparr>adapter_provideDebugConfigurations :=
          Some (\<lambda>folder. map_sum id Some (plugin_provideDebugConfigurations provider folder)),
        adapter_resolveDebugConfiguration :=
          Some (plugin_resolveDebugConfiguration provider)\<rparr>"

subsection \<open>Registration\<close>

text \<open>
  \<open>uuid\<close> is the value \<^verbatim>\<open>uuid.v4()\<close> returns in the call. The disposable returned by the
  registration is \<open>registration_dispose\<close> at the contribution id.
\<close>

definition registration_dispose :: "string \<Rightarrow> DebugExtImpl \<Rightarrow> DebugExtImpl" where
  "registration_dispose contributionId this =
     this\<lparr>debugAdapterContributions := (debugAdapterContributions this)(contributionId := None),
          packageContributions := (packageContributions this)(contributionId := None),
          proxy_calls := proxy_calls this @ [UnregisterDebugConfigurationProvider contributionId]\<rparr>"

definition registerDebugConfigurationProvider ::
  "ext_env \<Rightarrow> string \<Rightarrow> DebugExtImpl \<Rightarrow> string \<Rightarrow> DebugConfigurationProvider
     \<Rightarrow> PluginPackageDebuggersContribution \<Rightarrow> string
     \<Rightarrow> (DebugExtImpl \<Rightarrow> DebugExtImpl) \<times> DebugExtImpl" where
  "registerDebugConfigurationProvider env uuid this debugType provider packageContribution pluginPath =
     (let contributionId = uuid;
          pluginContribution = DebugPluginContribution env debugType provider pluginPath;
          description = \<lparr>description_type = debugType,
                         description_label = label packageContribution\<rparr>
      in (registration_dispose contributionId,
          this\<lparr>debugAdapterContributions :=
                 (debugAdapterContributions this)(contributionId \<mapsto> pluginContribution),
               packageContributions :=
                 (packageContributions this)(contributionId \<mapsto> packageContribution),
               proxy_calls := proxy_calls this
                 @ [RegisterDebugConfigurationProvider contributionId description]\<rparr>))"

subsection \<open>Notifications from the host side\<close>

definition onSessionCustomEvent :: "DebugExtImpl \<Rightarrow> string \<Rightarrow> string \<Rightarrow> jsvalue \<Rightarrow> DebugExtImpl" where
  "onSessionCustomEvent this sessionId event body =
     (case debugSessions this sessionId of
        Some session \<Rightarrow>
          this\<lparr>fired := fired this @ [DidReceiveDebugSessionCustomEvent event body session]\<rparr>
      | None \<Rightarrow> this)"

definition sessionDidCreate :: "DebugExtImpl \<Rightarrow> string \<Rightarrow> DebugExtImpl" where
  "sessionDidCreate this sessionId =
     (case debugSessions this sessionId of
        Some session \<Rightarrow> this\<lparr>fired := fired this @ [DidStartDebugSession session]\<rparr>
      | None \<Rightarrow> this)"

definition sessionDidDestroy :: "DebugExtImpl \<Rightarrow> string \<Rightarrow> DebugExtImpl" where
  "sessionDidDestroy this sessionId =
     (case debugSessions this sessionId of
        Some session \<Rightarrow> this\<lparr>fired := fired this @ [DidTerminateDebugSession session]\<rparr>
      | None \<Rightarrow> this)"

text \<open>
  \<^verbatim>\<open>$sessionDidChange\<close> binds a local constant and fires it; \<^verbatim>\<open>sessionId ? ... : undefined\<close>
  takes the second branch for an undefined and for an empty id.
\<close>

definition sessionDidChange :: "DebugExtImpl \<Rightarrow> string option \<Rightarrow> DebugExtImpl" where
  "sessionDidChange this sessionId =
     (let activeSession = (if truthy sessionId
                           then and_field sessionId (debugSessions this) else None)
      in this\<lparr>fired := fired this @ [DidChangeActiveDebugSession activeSession]\<rparr>)"

definition breakpointsDidChange ::
  "DebugExtImpl \<Rightarrow> Breakpoint list \<Rightarrow> Breakpoint list \<Rightarrow> Breakpoint list \<Rightarrow> Breakpoint list
     \<Rightarrow> DebugExtImpl" where
  "breakpointsDidChange this all added removed changed =
     this\<lparr>breakpoints := all,
          fired := fired this @ [DidChangeBreakpoints added removed changed]\<rparr>"

definition deliver :: "DebugExtImpl \<Rightarrow> ext_call \<Rightarrow> DebugExtImpl" where
  "deliver this call =
     (case call of
        BreakpointsDidChange all added removed changed \<Rightarrow>
          breakpointsDidChange this all added removed changed
      | SessionDidCreate sessionId \<Rightarrow> sessionDidCreate this sessionId
      | SessionDidDestroy sessionId \<Rightarrow> sessionDidDestroy this sessionId
      | SessionDidChange sessionId \<Rightarrow> sessionDidChange this sessionId
      | OnSessionCustomEvent sessionId event body \<Rightarrow> onSessionCustomEvent this sessionId event body)"

subsection \<open>Sessions\<close>

definition getExecutable ::
  "ext_env \<Rightarrow> PluginPackageDebuggersContribution option \<Rightarrow> DebugAdapterContribution
     \<Rightarrow> DebugConfiguration \<Rightarrow> error + DebugAdapterExecutable" where
  "getExecutable env packageContribution adapterContribution debugConfiguration =
     (case and_field packageContribution adapterExecutableCommand of
        Some command \<Rightarrow>
          (case executeCommand env command of
             Inl e \<Rightarrow> Inl e
           | Inr (Some result) \<Rightarrow> Inr result
           | Inr None \<Rightarrow> Inl NoExecutable)
      | None \<Rightarrow>
          (case adapter_provideDebugAdapterExecutable adapterContribution of
             Some provide \<Rightarrow>
               (case provide debugConfiguration of
                  Inl e \<Rightarrow> Inl e
                | Inr (Some executable) \<Rightarrow> Inr executable
                | Inr None \<Rightarrow> Inl NoExecutable)
           | None \<Rightarrow> Inl NoExecutable))"

text \<open>
  \<^verbatim>\<open>$createDebugSession\<close>; \<open>uuid\<close> is the value \<^verbatim>\<open>uuid.v4()\<close> returns in the call. The
  forwarder stored in the session is
  \<^verbatim>\<open>(command, args) => this.proxy.$customRequest(command, args)\<close>.
\<close>

definition createDebugSession ::
  "ext_env \<Rightarrow> string \<Rightarrow> DebugExtImpl \<Rightarrow> string \<Rightarrow> DebugConfiguration
     \<Rightarrow> (error + string) \<times> DebugExtImpl" where
  "createDebugSession env uuid this contributionId debugConfiguration =
     (case debugAdapterContributions this contributionId of
        None \<Rightarrow> (Inl (ContributionNotFound contributionId (configType debugConfiguration)), this)
      | Some adapterContribution \<Rightarrow>
          (case getExecutable env (packageContributions this contributionId)
                  adapterContribution debugConfiguration of
             Inl e \<Rightarrow> (Inl e, this)
           | Inr executable \<Rightarrow>
               (case startDebugAdapter executable of
                  Inl e \<Rightarrow> (Inl e, this)
                | Inr provider \<Rightarrow>
                    let sessionId = uuid;
                        session = new_PluginDebugSession sessionId debugConfiguration provider
                                    (\<lambda>command args. CustomRequest [JString command, args]);
                        this' = this\<lparr>debugSessions := (debugSessions this)(sessionId \<mapsto> session)\<rparr>
                    in (case ensureConnection env sessionId of
                          Inl e \<Rightarrow> (Inl e, this')
                        | Inr connection \<Rightarrow>
                            (case session_start env session (PluginWebSocketChannel connection) of
                               Inl e \<Rightarrow> (Inl e, this')
                             | Inr _ \<Rightarrow> (Inr sessionId, this'))))))"

definition terminateDebugSession ::
  "ext_env \<Rightarrow> DebugExtImpl \<Rightarrow> string \<Rightarrow> (error + unit) \<times> DebugExtImpl" where
  "terminateDebugSession env this sessionId =
     (case debugSessions this sessionId of
        Some debugAdapterSession \<Rightarrow>
          let this' = this\<lparr>debugSessions := (debugSessions this)(sessionId := None)\<rparr>
          in (session_stop env debugAdapterSession (debugSessions this'), this')
      | None \<Rightarrow> (Inr (), this))"

subsection \<open>Capability queries\<close>

definition getSupportedLanguages :: "DebugExtImpl \<Rightarrow> string \<Rightarrow> error + string list" where
  "getSupportedLanguages this contributionId =
     (case and_field (debugAdapterContributions this contributionId) adapter_languages of
        Some promise \<Rightarrow>
          (case promise of
             Inl e \<Rightarrow> Inl e
           | Inr langs \<Rightarrow> Inr (or_empty langs))
      | None \<Rightarrow> Inr [])"

definition ext_getSchemaAttributes :: "DebugExtImpl \<Rightarrow> string \<Rightarrow> error + jsvalue list" where
  "ext_getSchemaAttributes this contributionId =
     (case and_field (debugAdapterContributions this contributionId) adapter_getSchemaAttributes of
        Some call \<Rightarrow> call
      | None \<Rightarrow> Inr [])"

definition ext_getConfigurationSnippets :: "DebugExtImpl \<Rightarrow> string \<Rightarrow> error + jsvalue list" where
  "ext_getConfigurationSnippets this contributionId =
     (case and_field (debugAdapterContributions this contributionId)
             adapter_getConfigurationSnippets of
        Some call \<Rightarrow> call
      | None \<Rightarrow> Inr [])"

definition provideDebugConfigurations ::
  "DebugExtImpl \<Rightarrow> string \<Rightarrow> string option \<Rightarrow> error + DebugConfiguration list" where
  "provideDebugConfigurations this contributionId folder =
     (case and_field (debugAdapterContributions this contributionId)
             adapter_provideDebugConfigurations of
        Some provide \<Rightarrow>
          (case provide None of
             Inl e \<Rightarrow> Inl e
           | Inr (Some result) \<Rightarrow> Inr result
           | Inr None \<Rightarrow> Inr [])
      | None \<Rightarrow> Inr [])"

definition resolveDebugConfigurations ::
  "DebugExtImpl \<Rightarrow> string \<Rightarrow> DebugConfiguration \<Rightarrow> string option
     \<Rightarrow> error + DebugConfiguration option" where
  "resolveDebugConfigurations this contributionId debugConfiguration folder =
     (case and_field (debugAdapterContributions this contributionId)
             adapter_resolveDebugConfiguration of
        Some resolve \<Rightarrow> resolve debugConfiguration folder
      | None \<Rightarrow> Inr None)"

section \<open>The host side: DebugMainImpl\<close>

text \<open>
  What the bridge reads of the host authorities: the session manager's sessions (each
  answers a custom request, or rejects) and current session, and the breakpoint
  manager's \<^verbatim>\<open>getBreakpoints(uri?)\<close>.
\<close>

record DebugSession =
  sendCustomRequest :: "jsvalue \<Rightarrow> jsvalue \<Rightarrow> error + jsvalue"

record DebugMainImpl =
  sessions :: "string \<rightharpoonup> DebugSession"
  currentSession :: "string option"
  getBreakpoints :: "string option \<Rightarrow> SourceBreakpoint list"

definition getSession :: "DebugMainImpl \<Rightarrow> jsvalue \<Rightarrow> DebugSession option" where
  "getSession this sessionId =
     (case sessionId of JString s \<Rightarrow> sessions this s | _ \<Rightarrow> None)"

definition main_customRequest ::
  "DebugMainImpl \<Rightarrow> jsvalue \<Rightarrow> jsvalue \<Rightarrow> jsvalue \<Rightarrow> error + jsvalue" where
  "main_customRequest this sessionId command arguments =
     (case getSession this sessionId of
        Some session \<Rightarrow> sendCustomRequest session command arguments
      | None \<Rightarrow> Inl (SessionNotFound sessionId))"

text \<open>
  The transport applies the method to the argument list of the call: the parameters are
  bound by position, and a parameter past the end of the list is undefined.
\<close>

definition nth_arg :: "jsvalue list \<Rightarrow> nat \<Rightarrow> jsvalue" where
  "nth_arg argv i = (if i < length argv then argv ! i else JUndefined)"

definition handle_main_call :: "DebugMainImpl \<Rightarrow> main_call \<Rightarrow> (error + jsvalue) option" where
  "handle_main_call this call =
     (case call of
        CustomRequest argv \<Rightarrow>
          Some (main_customRequest this (nth_arg argv 0) (nth_arg argv 1) (nth_arg argv 2))
      | _ \<Rightarrow> None)"

definition toInternalBreakpoint ::
  "uri_library \<Rightarrow> DebugMainImpl \<Rightarrow> Location \<Rightarrow> Breakpoint \<Rightarrow> DebugBreakpoint" where
  "toInternalBreakpoint lib this loc breakpoint =
     (let u = uri_revive lib (uri loc);
          uriString = uri_toString lib u
      in \<lparr>origin =
            \<lparr>sb_uri = uriString, sb_enabled = True,
             raw = \<lparr>raw_line = startLineNumber (location_range loc),
                    raw_column = Some (startColumn (location_range loc)),
                    raw_condition = condition breakpoint,
                    raw_hitCondition = hitCondition breakpoint,
                    raw_logMessage = logMessage breakpoint\<rparr>\<rparr>,
          bp_session = currentSession this\<rparr>)"

definition toInternalBreakpoints ::
  "uri_library \<Rightarrow> DebugMainImpl \<Rightarrow> Breakpoint list \<Rightarrow> DebugBreakpoint list" where
  "toInternalBreakpoints lib this bps =
     map (\<lambda>breakpoint. toInternalBreakpoint lib this (the (location breakpoint)) breakpoint)
       (filter (\<lambda>breakpoint. location breakpoint \<noteq> None) bps)"

text \<open>\<^verbatim>\<open>b.raw.column || 0\<close>: zero for an undefined column.\<close>

definition column_or_0 :: "int option \<Rightarrow> int" where
  "column_or_0 c = (case c of Some n \<Rightarrow> (if n = 0 then 0 else n) | None \<Rightarrow> 0)"

definition toTheiaPluginApiBreakpoint :: "uri_library \<Rightarrow> SourceBreakpoint \<Rightarrow> Breakpoint" where
  "toTheiaPluginApiBreakpoint lib b =
     \<lparr>enabled = sb_enabled b,
      condition = raw_condition (raw b),
      hitCondition = raw_hitCondition (raw b),
      logMessage = raw_logMessage (raw b),
      location = Some
        \<lparr>uri = uri_parse lib (sb_uri b),
         location_range =
           \<lparr>startLineNumber = raw_line (raw b),
            startColumn = column_or_0 (raw_column (raw b)),
            endLineNumber = raw_line (raw b),
            endColumn = column_or_0 (raw_column (raw b))\<rparr>\<rparr>\<rparr>"

definition toTheiaPluginApiBreakpoints :: "uri_library \<Rightarrow> SourceBreakpoint list \<Rightarrow> Breakpoint list" where
  "toTheiaPluginApiBreakpoints lib sourceBreakpoints =
     map (toTheiaPluginApiBreakpoint lib) sourceBreakpoints"

text \<open>
  The handler of \<^verbatim>\<open>onDidChangeMarkers\<close>, as the list of calls it issues on the
  \<^verbatim>\<open>DebugExt\<close> proxy.
\<close>

definition onDidChangeMarkers :: "uri_library \<Rightarrow> DebugMainImpl \<Rightarrow> string \<Rightarrow> ext_call list" where
  "onDidChangeMarkers lib this u =
     (let all = getBreakpoints this None;
          affected = getBreakpoints this (Some u)
      in [BreakpointsDidChange (toTheiaPluginApiBreakpoints lib all) [] []
            (toTheiaPluginApiBreakpoints lib affected)])"

section \<open>The delta of a marker change\<close>

text \<open>
  The spec's words for the notification of a breakpoint change are "the specific delta
  (added/removed/changed) restricted to the affected resource". Read on the breakpoint
  manager before and after the change: the breakpoints of the resource that are new, and
  those that are gone. These two functions are that reading, not part of the bridge.
\<close>

definition spec_delta_added ::
  "DebugMainImpl \<Rightarrow> DebugMainImpl \<Rightarrow> string \<Rightarrow> SourceBreakpoint list" where
  "spec_delta_added before after u =
     filter (\<lambda>b. b \<notin> set (getBreakpoints before (Some u))) (getBreakpoints after (Some u))"

definition spec_delta_removed ::
  "DebugMainImpl \<Rightarrow> DebugMainImpl \<Rightarrow> string \<Rightarrow> SourceBreakpoint list" where
  "spec_delta_removed before after u =
     filter (\<lambda>b. b \<notin> set (getBreakpoints after (Some u))) (getBreakpoints before (Some u))"

section \<open>Concrete inputs\<close>


definition windows_platform :: "bool \<Rightarrow> platform" where
  "windows_platform marker =
     \<lparr>isWindows = True, isOSX = False, env_PROCESSOR_ARCHITEW6432 = marker\<rparr>"

definition program_only :: "string \<Rightarrow> PlatformSpecificAdapterContribution" where
  "program_only p = \<lparr>program = Some p, args = None, runtime = None, runtimeArgs = None\<rparr>"

definition example_metadata :: PluginPackageDebuggersContribution where
  "example_metadata =
     \<lparr>program = None, args = None, runtime = None, runtimeArgs = None,
      label = None, languages = None, configurationSnippets = None,
      adapterExecutableCommand = None,
      win = Some (program_only ''a''), winx86 = None, windows = None,
      osx = Some (program_only ''b''), linux = Some (program_only ''c'')\<rparr>"


definition x86_metadata :: PluginPackageDebuggersContribution where
  "x86_metadata = example_metadata\<lparr>winx86 := Some (program_only ''x'')\<rparr>"

definition snippet_metadata :: PluginPackageDebuggersContribution where
  "snippet_metadata = example_metadata\<lparr>configurationSnippets := Some [JString ''snippet'']\<rparr>"

definition example_config :: DebugConfiguration where
  "example_config = \<lparr>configType = ''node'', configName = ''Launch'', configRest = []\<rparr>"

definition node_executable :: DebugAdapterExecutable where
  "node_executable =
     \<lparr>exe_command = Some ''node'', exe_modulePath = None, exe_args = Some [''/adapter.js'']\<rparr>"

definition example_vscode_contribution :: "string \<Rightarrow> string \<Rightarrow> DebugAdapterContribution" where
  "example_vscode_contribution debugType pluginPath =
     \<lparr>adapter_type = debugType,
      adapter_languages = Some (Inr (Some [''javascript''])),
      adapter_getSchemaAttributes = Some (Inr [JString ''schema'']),
      adapter_getConfigurationSnippets = Some (Inr [JString ''snippet'']),
      adapter_provideDebugAdapterExecutable = Some (\<lambda>config. Inr (Some node_executable)),
      adapter_provideDebugConfigurations = None,
      adapter_resolveDebugConfiguration = None\<rparr>"

definition example_env :: ext_env where
  "example_env =
     \<lparr>executeCommand = (\<lambda>command. Inr None),
      ensureConnection = (\<lambda>sessionId. Inr (Connection sessionId)),
      vscode_contribution = example_vscode_contribution,
      session_start = (\<lambda>session channel. Inr ()),
      session_stop = (\<lambda>session registry. Inr ())\<rparr>"

definition refusing_env :: ext_env where
  "refusing_env =
     example_env\<lparr>ensureConnection := (\<lambda>sessionId. Inl (External ''no connection''))\<rparr>"

definition example_provider :: DebugConfigurationProvider where
  "example_provider =
     \<lparr>provider_provideDebugConfigurations = Some (Inr (Some [example_config])),
      provider_resolveDebugConfiguration = Some (\<lambda>config. Inr (Some config))\<rparr>"

definition empty_ext :: DebugExtImpl where
  "empty_ext =
     \<lparr>debugSessions = Map.empty, debugAdapterContributions = Map.empty,
      packageContributions = Map.empty, activeDebugSession = None, breakpoints = [],
      proxy_calls = [], fired = []\<rparr>"

definition registered_ext :: DebugExtImpl where
  "registered_ext =
     snd (registerDebugConfigurationProvider example_env ''node-contrib-id'' empty_ext ''node''
            example_provider example_metadata ''/p'')"

definition example_session :: PluginDebugSession where
  "example_session =
     new_PluginDebugSession ''s1'' example_config (Spawned ''node'' (Some [''/adapter.js'']))
       (\<lambda>command args. CustomRequest [JString command, args])"

definition created_ext :: DebugExtImpl where
  "created_ext =
     snd (createDebugSession example_env ''s1'' registered_ext ''node-contrib-id'' example_config)"

definition example_main :: DebugMainImpl where
  "example_main =
     \<lparr>sessions = [''s1'' \<mapsto> \<lparr>sendCustomRequest = (\<lambda>command arguments. Inr (JString ''ok''))\<rparr>],
      currentSession = Some ''s1'',
      getBreakpoints = (\<lambda>u. [])\<rparr>"

text \<open>
  A URI library for URIs of the form \<^verbatim>\<open>scheme://authority/path\<close> that need no escaping,
  on which parsing and printing are the plain splitting and joining of the components.
\<close>

definition simple_uri_parse :: "string \<Rightarrow> UriComponents" where
  "simple_uri_parse s =
     (let sch = takeWhile (\<lambda>c. c \<noteq> CHR '':'') s;
          rest = drop (length sch + 3) s
      in \<lparr>scheme = sch,
          authority = takeWhile (\<lambda>c. c \<noteq> CHR ''/'') rest,
          path = dropWhile (\<lambda>c. c \<noteq> CHR ''/'') rest,
          query = [], fragment = []\<rparr>)"

definition simple_uri_toString :: "UriComponents \<Rightarrow> string" where
  "simple_uri_toString u = scheme u @ ''://'' @ authority u @ path u"

definition simple_uri_library :: uri_library where
  "simple_uri_library =
     \<lparr>uri_parse = simple_uri_parse, uri_revive = (\<lambda>u. u), uri_toString = simple_uri_toString\<rparr>"

definition example_source_breakpoint :: SourceBreakpoint where
  "example_source_breakpoint =
     \<lparr>sb_uri = ''file:///a'', sb_enabled = True,
      raw = \<lparr>raw_line = 5, raw_column = Some 0, raw_condition = Some ''x'',
             raw_hitCondition = None, raw_logMessage = None\<rparr>\<rparr>"

definition example_wire_breakpoint :: Breakpoint where
  "example_wire_breakpoint =
     \<lparr>enabled = True, condition = Some ''x'', hitCondition = None, logMessage = None,
      location = Some
        \<lparr>uri = \<lparr>scheme = ''file'', authority = [], path = ''/a'', query = [], fragment = []\<rparr>,
         location_range = \<lparr>startLineNumber = 5, startColumn = 0, endLineNumber = 5,
                            endColumn = 0\<rparr>\<rparr>\<rparr>"

definition main_with_breakpoints :: "SourceBreakpoint list \<Rightarrow> DebugMainImpl" where
  "main_with_breakpoints bs =
     \<lparr>sessions = Map.empty, currentSession = None,
      getBreakpoints = (\<lambda>u. case u of None \<Rightarrow> bs | Some x \<Rightarrow> filter (\<lambda>b. sb_uri b = x) bs)\<rparr>"

text \<open>
  The printing of a URI by \<^verbatim>\<open>vscode-uri\<close>: the scheme and a colon, \<^verbatim>\<open>//\<close> when there is an
  authority or the scheme is \<^verbatim>\<open>file\<close>, the authority, the path with a Windows drive letter
  in lower case, then the query and the fragment. In every component each character other
  than a letter, a digit, \<^verbatim>\<open>-\<close>, \<^verbatim>\<open>.\<close>, \<^verbatim>\<open>_\<close> and \<^verbatim>\<open>~\<close> (and, in the path, the slash) is
  percent-encoded. The lower-casing of the authority and the treatment of its user
  information and port are left out. Parsing is the plain splitting above, for a URI
  without escapes, query and fragment.
\<close>

definition unreserved :: "char \<Rightarrow> bool" where
  "unreserved c =
     (c \<in> set ''abcdefghijklmnopqrstuvwxyzABCDEFGHIJKLMNOPQRSTUVWXYZ0123456789-._~'')"

definition hex_digit :: "nat \<Rightarrow> char" where
  "hex_digit n = ''0123456789ABCDEF'' ! (n mod 16)"

definition percent_encode_char :: "bool \<Rightarrow> char \<Rightarrow> string" where
  "percent_encode_char allowSlash c =
     (if unreserved c \<or> (allowSlash \<and> c = CHR ''/'') then [c]
      else [CHR ''%'', hex_digit (of_char c div 16), hex_digit (of_char c)])"

definition encodeURIComponentFast :: "string \<Rightarrow> bool \<Rightarrow> string" where
  "encodeURIComponentFast s allowSlash = concat (map (percent_encode_char allowSlash) s)"

definition lower_case_letter :: "char \<Rightarrow> char" where
  "lower_case_letter c =
     (case map_of (zip ''ABCDEFGHIJKLMNOPQRSTUVWXYZ'' ''abcdefghijklmnopqrstuvwxyz'') c of
        Some l \<Rightarrow> l
      | None \<Rightarrow> c)"

definition lower_case_drive :: "string \<Rightarrow> string" where
  "lower_case_drive p =
     (if length p \<ge> 3 \<and> p ! 0 = CHR ''/'' \<and> p ! 2 = CHR '':''
        then CHR ''/'' # lower_case_letter (p ! 1) # CHR '':'' # drop 3 p
      else if length p \<ge> 2 \<and> p ! 1 = CHR '':''
        then lower_case_letter (p ! 0) # CHR '':'' # drop 2 p
      else p)"

definition encoding_uri_toString :: "UriComponents \<Rightarrow> string" where
  "encoding_uri_toString u =
     (if scheme u \<noteq> [] then scheme u @ '':'' else [])
     @ (if authority u \<noteq> [] \<or> scheme u = ''file'' then ''//'' else [])
     @ encodeURIComponentFast (authority u) False
     @ encodeURIComponentFast (lower_case_drive (path u)) True
     @ (if query u \<noteq> [] then ''?'' @ encodeURIComponentFast (query u) False else [])
     @ (if fragment u \<noteq> [] then ''#'' @ encodeURIComponentFast (fragment u) False else [])"

definition encoding_uri_library :: uri_library where
  "encoding_uri_library =
     \<lparr>uri_parse = simple_uri_parse, uri_revive = (\<lambda>u. u), uri_toString = encoding_uri_toString\<rparr>"

definition drive_source_breakpoint :: SourceBreakpoint where
  "drive_source_breakpoint =
     \<lparr>sb_uri = ''file:///c:/x'', sb_enabled = True,
      raw = \<lparr>raw_line = 5, raw_column = Some 0, raw_condition = Some ''x'',
             raw_hitCondition = None, raw_logMessage = None\<rparr>\<rparr>"

section \<open>The concrete inputs, evaluated\<close>

lemma registered_contribution:
  "debugAdapterContributions registered_ext ''node-contrib-id''
     = Some (DebugPluginContribution example_env ''node'' example_provider ''/p'')"
  by (simp add: registered_ext_def registerDebugConfigurationProvider_def Let_def)

lemma registered_package:
  "packageContributions registered_ext ''node-contrib-id'' = Some example_metadata"
  by (simp add: registered_ext_def registerDebugConfigurationProvider_def Let_def)

lemma registered_sessions: "debugSessions registered_ext = Map.empty"
  by (simp add: registered_ext_def registerDebugConfigurationProvider_def Let_def empty_ext_def)

lemma example_executable:
  "getExecutable env (Some example_metadata)
     (DebugPluginContribution example_env ''node'' example_provider ''/p'') example_config
   = Inr node_executable"
  by (simp add: getExecutable_def and_field_def example_metadata_def DebugPluginContribution_def
        example_env_def example_vscode_contribution_def)

lemma example_started:
  "startDebugAdapter node_executable = Inr (Spawned ''node'' (Some [''/adapter.js'']))"
  by (simp add: startDebugAdapter_def node_executable_def)

lemma example_env_connection: "ensureConnection example_env sessionId = Inr (Connection sessionId)"
  by (simp add: example_env_def)

lemma example_env_start: "session_start example_env session channel = Inr ()"
  by (simp add: example_env_def)

lemma example_env_stop: "session_stop example_env session registry = Inr ()"
  by (simp add: example_env_def)

lemma example_create:
  "createDebugSession example_env ''s1'' registered_ext ''node-contrib-id'' example_config
     = (Inr ''s1'', registered_ext\<lparr>debugSessions := [''s1'' \<mapsto> example_session]\<rparr>)"
  by (simp add: createDebugSession_def registered_contribution registered_package
        registered_sessions example_executable example_started Let_def
        example_env_connection example_env_start example_session_def)

lemma created_sessions: "debugSessions created_ext = [''s1'' \<mapsto> example_session]"
  by (simp add: created_ext_def example_create)

lemma example_parse:
  "simple_uri_parse ''file:///a''
     = \<lparr>scheme = ''file'', authority = [], path = ''/a'', query = [], fragment = []\<rparr>"
  by (simp add: simple_uri_parse_def)

lemma example_to_wire:
  "toTheiaPluginApiBreakpoints simple_uri_library [example_source_breakpoint]
     = [example_wire_breakpoint]"
  by (simp add: toTheiaPluginApiBreakpoints_def toTheiaPluginApiBreakpoint_def
        simple_uri_library_def example_source_breakpoint_def example_wire_breakpoint_def
        example_parse column_or_0_def)

section \<open>The custom-request forwarder\<close>

text \<open>
  Claim C1. The claim: the forwarder stored in a session issues \<^verbatim>\<open>customRequest\<close> with the
  session's id first, then the command and the arguments, so the host side finds the live
  session. The code, evaluated: the session \<^verbatim>\<open>s1\<close> is created and is live on the host
  side; its forwarder, called with \<^verbatim>\<open>evaluate\<close> and an empty object, issues the call with
  the two arguments \<^verbatim>\<open>evaluate\<close> and the object only; the host side binds \<^verbatim>\<open>evaluate\<close> to
  its \<^verbatim>\<open>sessionId\<close> parameter and rejects with "not found", whereas the call with the id
  in front is answered by the session.
\<close>

theorem customRequest_forwarder_omits_session_id:
  "fst (createDebugSession example_env ''s1'' registered_ext ''node-contrib-id'' example_config)
     = Inr ''s1''
   \<and> map_option (\<lambda>s. customRequest s ''evaluate'' (JObject [])) (debugSessions created_ext ''s1'')
       = Some (CustomRequest [JString ''evaluate'', JObject []])
   \<and> handle_main_call example_main (CustomRequest [JString ''evaluate'', JObject []])
       = Some (Inl (SessionNotFound (JString ''evaluate'')))
   \<and> handle_main_call example_main
        (CustomRequest [JString ''s1'', JString ''evaluate'', JObject []])
       = Some (Inr (JString ''ok''))"
  by (simp add: created_sessions example_create example_session_def new_PluginDebugSession_def
        handle_main_call_def main_customRequest_def getSession_def nth_arg_def example_main_def)

section \<open>Schema attributes\<close>

text \<open>
  Claim C2. The claim: \<^verbatim>\<open>getSchemaAttributes\<close> returns the entries of the snippet table when
  the table is defined, the empty list when it is undefined, and never throws. The code,
  evaluated: it returns the empty list whenever the table is defined (here for a table of
  one snippet) and throws a TypeError when the table is undefined.
\<close>

theorem getSchemaAttributes_inverted:
  "getSchemaAttributes pc =
     (case configurationSnippets pc of
        Some snippets \<Rightarrow> Inr []
      | None \<Rightarrow> Inl (TypeError ''Cannot convert undefined or null to object''))
   \<and> configurationSnippets snippet_metadata = Some [JString ''snippet'']
   \<and> getSchemaAttributes snippet_metadata = Inr []
   \<and> configurationSnippets example_metadata = None
   \<and> getSchemaAttributes example_metadata
       = Inl (TypeError ''Cannot convert undefined or null to object'')"
  by (simp add: getSchemaAttributes_def object_keys_def snippet_metadata_def
        example_metadata_def split: option.splits)

section \<open>Executable resolution\<close>




section \<open>Platform selection on Windows\<close>

text \<open>
  Claim C4, as stated, at metadata with both a \<^verbatim>\<open>winx86\<close> and a \<^verbatim>\<open>win\<close> record: with the
  marker \<^verbatim>\<open>PROCESSOR_ARCHITEW6432\<close> present the \<^verbatim>\<open>win\<close> record is selected, and with the
  marker absent the \<^verbatim>\<open>winx86\<close> record is.
\<close>

theorem toPlatformInfo_winx86_counterexample:
  "toPlatformInfo (windows_platform True) x86_metadata = Some (program_only ''a'')
   \<and> toPlatformInfo (windows_platform False) x86_metadata = Some (program_only ''x'')
   \<and> winx86 x86_metadata = Some (program_only ''x'')
   \<and> win x86_metadata = Some (program_only ''a'')
   \<and> program_only ''a'' \<noteq> program_only ''x''"
  by (simp add: toPlatformInfo_def windows_platform_def x86_metadata_def example_metadata_def
        program_only_def or_object_def)

text \<open>
  Claim C4, amended. On Windows the \<^verbatim>\<open>winx86\<close> record is preferred over \<^verbatim>\<open>win\<close> and
  \<^verbatim>\<open>windows\<close> exactly when the marker \<^verbatim>\<open>PROCESSOR_ARCHITEW6432\<close> is absent: with the marker
  absent a \<^verbatim>\<open>winx86\<close> record is selected when there is one, and otherwise \<^verbatim>\<open>win\<close>, else
  \<^verbatim>\<open>windows\<close>; with the marker present the selection is \<^verbatim>\<open>win\<close>, else \<^verbatim>\<open>windows\<close>, whatever
  \<^verbatim>\<open>winx86\<close> is.
\<close>

theorem toPlatformInfo_windows:
  "(isWindows pf \<and> \<not> env_PROCESSOR_ARCHITEW6432 pf \<and> winx86 e = Some r \<longrightarrow>
      toPlatformInfo pf e = Some r)
   \<and> (isWindows pf \<and> \<not> env_PROCESSOR_ARCHITEW6432 pf \<and> winx86 e = None \<longrightarrow>
      toPlatformInfo pf e = or_object (win e) (windows e))
   \<and> (isWindows pf \<and> env_PROCESSOR_ARCHITEW6432 pf \<longrightarrow>
      toPlatformInfo pf e = or_object (win e) (windows e))"
  by (simp add: toPlatformInfo_def or_object_def)

theorem toPlatformInfo_windows_witness:
  "isWindows (windows_platform False) \<and> \<not> env_PROCESSOR_ARCHITEW6432 (windows_platform False)
   \<and> winx86 x86_metadata = Some (program_only ''x'')
   \<and> toPlatformInfo (windows_platform False) x86_metadata = Some (program_only ''x'')
   \<and> isWindows (windows_platform True) \<and> env_PROCESSOR_ARCHITEW6432 (windows_platform True)
   \<and> toPlatformInfo (windows_platform True) x86_metadata = Some (program_only ''a'')
   \<and> winx86 example_metadata = None
   \<and> toPlatformInfo (windows_platform False) example_metadata = Some (program_only ''a'')"
  using toPlatformInfo_windows [of "windows_platform False" x86_metadata "program_only ''x''"]
    toPlatformInfo_windows [of "windows_platform True" x86_metadata "program_only ''x''"]
    toPlatformInfo_windows [of "windows_platform False" example_metadata "program_only ''x''"]
  by (simp add: windows_platform_def x86_metadata_def example_metadata_def or_object_def)

section \<open>Termination of a session\<close>

text \<open>
  Claim C5. \<^verbatim>\<open>$terminateDebugSession\<close> on an unknown id resolves without error and leaves
  the state as it is. On a known id the session is removed from the registry first: the
  stop sequence runs against a registry that no longer has the id, and the state
  afterwards is the one with the id removed. After a termination the id is not in the
  registry, and terminating it again changes nothing and resolves. A session id returned
  by \<^verbatim>\<open>$createDebugSession\<close> is in the registry, and is not after its termination.
\<close>

theorem terminateDebugSession_idempotent:
  "(debugSessions this sessionId = None \<longrightarrow>
      terminateDebugSession env this sessionId = (Inr (), this))
   \<and> (\<forall>s. debugSessions this sessionId = Some s \<longrightarrow>
        (\<exists>registry. registry = (debugSessions this)(sessionId := None)
           \<and> registry sessionId = None
           \<and> terminateDebugSession env this sessionId
               = (session_stop env s registry, this\<lparr>debugSessions := registry\<rparr>)))
   \<and> debugSessions (snd (terminateDebugSession env this sessionId)) sessionId = None
   \<and> terminateDebugSession env (snd (terminateDebugSession env this sessionId)) sessionId
       = (Inr (), snd (terminateDebugSession env this sessionId))
   \<and> (\<forall>sid this1. createDebugSession env uuid this contributionId cfg = (Inr sid, this1) \<longrightarrow>
        debugSessions this1 sid \<noteq> None
        \<and> debugSessions (snd (terminateDebugSession env this1 sid)) sid = None)"
proof -
  have unknown: "debugSessions st k = None \<Longrightarrow> terminateDebugSession env st k = (Inr (), st)"
    for st k
    by (simp add: terminateDebugSession_def)
  have removed: "debugSessions (snd (terminateDebugSession env st k)) k = None" for st k
    by (simp add: terminateDebugSession_def Let_def split: option.splits)
  have known: "\<forall>s. debugSessions this sessionId = Some s \<longrightarrow>
        (\<exists>registry. registry = (debugSessions this)(sessionId := None)
           \<and> registry sessionId = None
           \<and> terminateDebugSession env this sessionId
               = (session_stop env s registry, this\<lparr>debugSessions := registry\<rparr>))"
    by (simp add: terminateDebugSession_def Let_def)
  have created:
    "\<forall>sid this1. createDebugSession env uuid this contributionId cfg = (Inr sid, this1) \<longrightarrow>
        debugSessions this1 sid \<noteq> None"
    by (auto simp: createDebugSession_def Let_def split: option.splits sum.splits)
  show ?thesis
    using unknown [of this sessionId] removed known created
      unknown [OF removed [of this sessionId]]
    by blast
qed

text \<open>
  The spec's scenario: the session \<^verbatim>\<open>s1\<close> is created, terminated, and terminated again;
  and an id that was never created is terminated.
\<close>

theorem terminateDebugSession_idempotent_witness:
  "createDebugSession example_env ''s1'' registered_ext ''node-contrib-id'' example_config
     = (Inr ''s1'', created_ext)
   \<and> debugSessions created_ext ''s1'' \<noteq> None
   \<and> fst (terminateDebugSession example_env created_ext ''s1'') = Inr ()
   \<and> debugSessions (snd (terminateDebugSession example_env created_ext ''s1'')) ''s1'' = None
   \<and> terminateDebugSession example_env (snd (terminateDebugSession example_env created_ext ''s1''))
        ''s1''
       = (Inr (), snd (terminateDebugSession example_env created_ext ''s1''))
   \<and> debugSessions registered_ext ''unknown'' = None
   \<and> terminateDebugSession example_env registered_ext ''unknown'' = (Inr (), registered_ext)"
proof -
  have created:
    "createDebugSession example_env ''s1'' registered_ext ''node-contrib-id'' example_config
       = (Inr ''s1'', created_ext)"
    by (simp add: created_ext_def example_create)
  have stopped: "fst (terminateDebugSession example_env created_ext ''s1'') = Inr ()"
    by (simp add: terminateDebugSession_def created_sessions Let_def example_env_stop)
  show ?thesis
    using terminateDebugSession_idempotent
        [of registered_ext "''unknown''" example_env "''s1''" "''node-contrib-id''" example_config]
      terminateDebugSession_idempotent
        [of created_ext "''s1''" example_env "''s1''" "''node-contrib-id''" example_config]
      created stopped
    by (simp add: registered_sessions)
qed

section \<open>Capability queries on an absent contribution\<close>

lemma registered_provide:
  "provideDebugConfigurations registered_ext ''node-contrib-id'' None = Inr [example_config]"
  by (simp add: provideDebugConfigurations_def registered_contribution and_field_def
        DebugPluginContribution_def plugin_provideDebugConfigurations_def example_provider_def)

lemma registered_languages:
  "getSupportedLanguages registered_ext ''node-contrib-id'' = Inr [''javascript'']"
  by (simp add: getSupportedLanguages_def registered_contribution and_field_def
        DebugPluginContribution_def example_env_def example_vscode_contribution_def or_empty_def)

text \<open>
  Claim C6. For a contribution id that is not in the contribution table, because it was
  never registered or because the disposer of its registration has run, the five
  capability queries resolve: with the empty list for the languages, the schema
  attributes, the snippets and the provided configurations, and with undefined for the
  resolved configuration.
\<close>

theorem capability_queries_absent_contribution:
  assumes "debugAdapterContributions this contributionId = None
           \<or> (\<exists>before. this = registration_dispose contributionId before)"
  shows "getSupportedLanguages this contributionId = Inr []
         \<and> ext_getSchemaAttributes this contributionId = Inr []
         \<and> ext_getConfigurationSnippets this contributionId = Inr []
         \<and> provideDebugConfigurations this contributionId folder = Inr []
         \<and> resolveDebugConfigurations this contributionId debugConfiguration folder = Inr None"
proof -
  from assms have absent: "debugAdapterContributions this contributionId = None"
    by (auto simp: registration_dispose_def)
  then show ?thesis
    by (simp add: getSupportedLanguages_def ext_getSchemaAttributes_def
          ext_getConfigurationSnippets_def provideDebugConfigurations_def
          resolveDebugConfigurations_def and_field_def)
qed

text \<open>
  The registered contribution answers with its configurations and languages; after its
  disposer has run, and for an id that was never registered, the queries are empty.
\<close>

theorem capability_queries_absent_contribution_witness:
  "provideDebugConfigurations registered_ext ''node-contrib-id'' None = Inr [example_config]
   \<and> getSupportedLanguages registered_ext ''node-contrib-id'' = Inr [''javascript'']
   \<and> getSupportedLanguages (registration_dispose ''node-contrib-id'' registered_ext)
        ''node-contrib-id'' = Inr []
   \<and> ext_getSchemaAttributes (registration_dispose ''node-contrib-id'' registered_ext)
        ''node-contrib-id'' = Inr []
   \<and> ext_getConfigurationSnippets (registration_dispose ''node-contrib-id'' registered_ext)
        ''node-contrib-id'' = Inr []
   \<and> provideDebugConfigurations (registration_dispose ''node-contrib-id'' registered_ext)
        ''node-contrib-id'' None = Inr []
   \<and> resolveDebugConfigurations (registration_dispose ''node-contrib-id'' registered_ext)
        ''node-contrib-id'' example_config None = Inr None
   \<and> debugAdapterContributions empty_ext ''never-registered'' = None
   \<and> provideDebugConfigurations empty_ext ''never-registered'' None = Inr []"
proof -
  have disposed: "\<exists>before. registration_dispose ''node-contrib-id'' registered_ext
                    = registration_dispose ''node-contrib-id'' before"
    by blast
  have never: "debugAdapterContributions empty_ext ''never-registered'' = None"
    by (simp add: empty_ext_def)
  show ?thesis
    using capability_queries_absent_contribution [OF disjI2 [OF disposed], of None example_config]
      capability_queries_absent_contribution [OF disjI1 [OF never], of None example_config]
      never registered_provide registered_languages
    by simp
qed

section \<open>Breakpoint change notifications\<close>

text \<open>
  Claim C7, as stated, on two marker changes of \<^verbatim>\<open>file:///a\<close>. Its only breakpoint is
  removed: the delta is that breakpoint, removed, and the call carries four empty lists.
  A breakpoint is set where there was none: the delta is that breakpoint, added, and the
  call carries it as changed, with nothing added.
\<close>

theorem onDidChangeMarkers_delta_counterexample:
  "onDidChangeMarkers simple_uri_library (main_with_breakpoints []) ''file:///a''
     = [BreakpointsDidChange [] [] [] []]
   \<and> spec_delta_removed (main_with_breakpoints [example_source_breakpoint])
        (main_with_breakpoints []) ''file:///a'' = [example_source_breakpoint]
   \<and> onDidChangeMarkers simple_uri_library (main_with_breakpoints [example_source_breakpoint])
        ''file:///a''
     = [BreakpointsDidChange [example_wire_breakpoint] [] [] [example_wire_breakpoint]]
   \<and> spec_delta_added (main_with_breakpoints [])
        (main_with_breakpoints [example_source_breakpoint]) ''file:///a''
       = [example_source_breakpoint]"
proof -
  have uri_a: "sb_uri example_source_breakpoint = ''file:///a''"
    by (simp add: example_source_breakpoint_def)
  show ?thesis
    by (simp add: onDidChangeMarkers_def main_with_breakpoints_def spec_delta_removed_def
          spec_delta_added_def uri_a example_to_wire Let_def)
      (simp add: toTheiaPluginApiBreakpoints_def)
qed

text \<open>
  Claim C7, amended. On a marker change of a resource the host side issues exactly one
  \<^verbatim>\<open>breakpointsDidChange\<close> call: its first argument is the wire form of all current
  breakpoints, its added and removed arguments are empty, and its changed argument is the
  wire form of all breakpoints currently set on the resource. Delivered to the extension
  side, the call replaces the stored breakpoints by the first argument and fires one
  change event with these added, removed and changed lists.
\<close>

theorem onDidChangeMarkers_single_call:
  "onDidChangeMarkers lib this u
     = [BreakpointsDidChange (toTheiaPluginApiBreakpoints lib (getBreakpoints this None)) [] []
          (toTheiaPluginApiBreakpoints lib (getBreakpoints this (Some u)))]
   \<and> length (onDidChangeMarkers lib this u) = 1
   \<and> breakpoints (foldl deliver ext (onDidChangeMarkers lib this u))
       = toTheiaPluginApiBreakpoints lib (getBreakpoints this None)
   \<and> fired (foldl deliver ext (onDidChangeMarkers lib this u))
       = fired ext @ [DidChangeBreakpoints [] []
                        (toTheiaPluginApiBreakpoints lib (getBreakpoints this (Some u)))]"
  by (simp add: onDidChangeMarkers_def Let_def deliver_def breakpointsDidChange_def)

section \<open>The active session\<close>

text \<open>
  Claim C8. The claim: \<^verbatim>\<open>activeDebugSession\<close> is updated on every \<^verbatim>\<open>$sessionDidChange\<close>. The
  code, evaluated: the notification fires the change event with the session it looked up
  and leaves the field as it was; with the session \<^verbatim>\<open>s1\<close> in the registry and no active
  session, the notification for \<^verbatim>\<open>s1\<close> fires the event with that session and the field is
  still empty.
\<close>

theorem sessionDidChange_keeps_activeDebugSession:
  "activeDebugSession (sessionDidChange this sessionId) = activeDebugSession this
   \<and> fired (sessionDidChange this sessionId)
       = fired this @ [DidChangeActiveDebugSession
           (if truthy sessionId then and_field sessionId (debugSessions this) else None)]
   \<and> debugSessions created_ext ''s1'' = Some example_session
   \<and> activeDebugSession created_ext = None
   \<and> activeDebugSession (sessionDidChange created_ext (Some ''s1'')) = None
   \<and> fired (sessionDidChange created_ext (Some ''s1''))
       = [DidChangeActiveDebugSession (Some example_session)]"
proof -
  have registered: "activeDebugSession registered_ext = None \<and> fired registered_ext = []"
    by (simp add: registered_ext_def registerDebugConfigurationProvider_def Let_def
          empty_ext_def)
  then have idle: "activeDebugSession created_ext = None \<and> fired created_ext = []"
    by (simp add: created_ext_def example_create)
  then show ?thesis
    by (simp add: sessionDidChange_def created_sessions truthy_def and_field_def)
qed

section \<open>Breakpoint translation\<close>

lemma toInternalBreakpoints_Nil: "toInternalBreakpoints lib this [] = []"
  by (simp add: toInternalBreakpoints_def)

lemma toInternalBreakpoints_Cons:
  "toInternalBreakpoints lib this (b # bs) =
     (case location b of
        None \<Rightarrow> toInternalBreakpoints lib this bs
      | Some loc \<Rightarrow> toInternalBreakpoint lib this loc b # toInternalBreakpoints lib this bs)"
  by (simp add: toInternalBreakpoints_def split: option.splits)

lemma toInternalBreakpoints_keys:
  "map (\<lambda>d. (sb_uri (origin d), raw_line (raw (origin d)), raw_condition (raw (origin d))))
     (toInternalBreakpoints lib this bps)
   = List.map_filter
       (\<lambda>b. case location b of
               None \<Rightarrow> None
             | Some loc \<Rightarrow> Some (uri_toString lib (uri_revive lib (uri loc)),
                                startLineNumber (location_range loc), condition b))
       bps"
proof (induction bps)
  case Nil
  show ?case by (simp add: toInternalBreakpoints_Nil)
next
  case (Cons b bps)
  then show ?case
    by (simp add: toInternalBreakpoints_Cons toInternalBreakpoint_def Let_def
          split: option.splits)
qed

lemma toTheiaPluginApiBreakpoints_keys:
  "map (\<lambda>w. (map_option uri (location w),
             map_option (\<lambda>loc. startLineNumber (location_range loc)) (location w), condition w))
     (toTheiaPluginApiBreakpoints lib sbs)
   = map (\<lambda>sb. (Some (uri_parse lib (sb_uri sb)), Some (raw_line (raw sb)),
                 raw_condition (raw sb))) sbs"
  by (simp add: toTheiaPluginApiBreakpoints_def toTheiaPluginApiBreakpoint_def)

lemma roundtrip_keys:
  "map (\<lambda>d. (sb_uri (origin d), raw_line (raw (origin d)), raw_condition (raw (origin d))))
     (toInternalBreakpoints lib this (toTheiaPluginApiBreakpoints lib sbs))
   = map (\<lambda>sb. (uri_toString lib (uri_revive lib (uri_parse lib (sb_uri sb))),
                 raw_line (raw sb), raw_condition (raw sb))) sbs"
  by (induction sbs)
     (simp_all add: toInternalBreakpoints_Nil toInternalBreakpoints_Cons
        toTheiaPluginApiBreakpoints_def toTheiaPluginApiBreakpoint_def toInternalBreakpoint_def
        Let_def)

lemma drive_parse:
  "simple_uri_parse ''file:///c:/x''
     = \<lparr>scheme = ''file'', authority = [], path = ''/c:/x'', query = [], fragment = []\<rparr>"
  by (simp add: simple_uri_parse_def)

lemma drive_printed:
  "encoding_uri_toString
     \<lparr>scheme = ''file'', authority = [], path = ''/c:/x'', query = [], fragment = []\<rparr>
   = ''file:///c%3A/x''"
  by (simp add: encoding_uri_toString_def encodeURIComponentFast_def lower_case_drive_def
        lower_case_letter_def percent_encode_char_def unreserved_def hex_digit_def)

lemma example_printed:
  "encoding_uri_toString
     \<lparr>scheme = ''file'', authority = [], path = ''/a'', query = [], fragment = []\<rparr>
   = ''file:///a''"
  by (simp add: encoding_uri_toString_def encodeURIComponentFast_def lower_case_drive_def
        percent_encode_char_def unreserved_def)

text \<open>
  Claim C9, as stated, at a breakpoint of \<^verbatim>\<open>file:///c:/x\<close>, line 5, condition \<^verbatim>\<open>x\<close>: its wire
  form has a location, and back in host form its line and condition are kept but its uri
  is \<^verbatim>\<open>file:///c%3A/x\<close>, the colon of the path percent-encoded by the printing of the URI.
\<close>

theorem breakpoint_translation_uri_counterexample:
  "sb_uri drive_source_breakpoint = ''file:///c:/x''
   \<and> map (\<lambda>w. location w \<noteq> None)
        (toTheiaPluginApiBreakpoints encoding_uri_library [drive_source_breakpoint]) = [True]
   \<and> map (\<lambda>d. (sb_uri (origin d), raw_line (raw (origin d)), raw_condition (raw (origin d))))
       (toInternalBreakpoints encoding_uri_library example_main
          (toTheiaPluginApiBreakpoints encoding_uri_library [drive_source_breakpoint]))
     = [(''file:///c%3A/x'', 5, Some ''x'')]
   \<and> ''file:///c%3A/x'' \<noteq> ''file:///c:/x''"
proof -
  have named: "sb_uri drive_source_breakpoint = ''file:///c:/x''"
    by (simp add: drive_source_breakpoint_def)
  have located: "map (\<lambda>w. location w \<noteq> None)
        (toTheiaPluginApiBreakpoints encoding_uri_library [drive_source_breakpoint]) = [True]"
    by (simp add: toTheiaPluginApiBreakpoints_def toTheiaPluginApiBreakpoint_def)
  have key: "map (\<lambda>sb. (uri_toString encoding_uri_library
                    (uri_revive encoding_uri_library
                       (uri_parse encoding_uri_library (sb_uri sb))),
                   raw_line (raw sb), raw_condition (raw sb))) [drive_source_breakpoint]
             = [(''file:///c%3A/x'', 5, Some ''x'')]"
    by (simp add: drive_source_breakpoint_def encoding_uri_library_def drive_parse
          drive_printed)
  have trip:
    "map (\<lambda>d. (sb_uri (origin d), raw_line (raw (origin d)), raw_condition (raw (origin d))))
       (toInternalBreakpoints encoding_uri_library example_main
          (toTheiaPluginApiBreakpoints encoding_uri_library [drive_source_breakpoint]))
     = [(''file:///c%3A/x'', 5, Some ''x'')]"
    using roundtrip_keys [of encoding_uri_library example_main "[drive_source_breakpoint]"] key
    by (rule trans)
  have differs: "''file:///c%3A/x'' \<noteq> ''file:///c:/x''"
    by simp
  from named located trip differs show ?thesis
    by blast
qed

text \<open>
  Claim C9, amended. Line and condition are kept in both directions, and the uri goes
  through the URI library. Host form to wire form: every breakpoint gets a location whose
  uri is the parsed uri of the host breakpoint and whose start line is its line, and keeps
  its condition. Wire form to host form: a breakpoint with a location becomes a host
  breakpoint whose uri is the printed, revived wire uri, whose line is the start line and
  whose condition is the wire condition; a breakpoint without a location yields nothing,
  wherever it stands in the list. Host to wire and back keeps the line and the condition
  of every breakpoint, and its uri becomes the uri parsed, revived and printed again.
\<close>

theorem breakpoint_translation_line_condition:
  "map (\<lambda>w. (map_option uri (location w),
             map_option (\<lambda>loc. startLineNumber (location_range loc)) (location w), condition w))
     (toTheiaPluginApiBreakpoints lib sbs)
   = map (\<lambda>sb. (Some (uri_parse lib (sb_uri sb)), Some (raw_line (raw sb)),
                 raw_condition (raw sb))) sbs
   \<and> map (\<lambda>d. (sb_uri (origin d), raw_line (raw (origin d)), raw_condition (raw (origin d))))
       (toInternalBreakpoints lib this bps)
     = List.map_filter
         (\<lambda>b. case location b of
                 None \<Rightarrow> None
               | Some loc \<Rightarrow> Some (uri_toString lib (uri_revive lib (uri loc)),
                                  startLineNumber (location_range loc), condition b))
         bps
   \<and> map (\<lambda>d. (sb_uri (origin d), raw_line (raw (origin d)), raw_condition (raw (origin d))))
       (toInternalBreakpoints lib this (toTheiaPluginApiBreakpoints lib sbs))
     = map (\<lambda>sb. (uri_toString lib (uri_revive lib (uri_parse lib (sb_uri sb))),
                   raw_line (raw sb), raw_condition (raw sb))) sbs
   \<and> (\<forall>b. location b = None \<longrightarrow>
         toInternalBreakpoints lib this (xs @ b # ys) = toInternalBreakpoints lib this (xs @ ys))
   \<and> length (toInternalBreakpoints lib this bps)
       = length (filter (\<lambda>b. location b \<noteq> None) bps)"
proof -
  have dropped: "\<forall>b. location b = None \<longrightarrow>
         toInternalBreakpoints lib this (xs @ b # ys) = toInternalBreakpoints lib this (xs @ ys)"
    by (simp add: toInternalBreakpoints_def)
  have len: "length (toInternalBreakpoints lib this bps)
       = length (filter (\<lambda>b. location b \<noteq> None) bps)"
    by (simp add: toInternalBreakpoints_def)
  from toTheiaPluginApiBreakpoints_keys [of lib sbs] toInternalBreakpoints_keys [of lib this bps]
    roundtrip_keys [of lib this sbs] dropped len
  show ?thesis by blast
qed

text \<open>
  The spec's breakpoint at \<^verbatim>\<open>file:///a\<close>, line 5, column 0, condition \<^verbatim>\<open>x\<close>: to wire form
  and back it keeps the three, since this uri is printed as it was parsed; the same wire
  breakpoint without its location is dropped.
\<close>

theorem breakpoint_translation_line_condition_witness:
  "map (\<lambda>d. (sb_uri (origin d), raw_line (raw (origin d)), raw_condition (raw (origin d))))
       (toInternalBreakpoints encoding_uri_library example_main
          (toTheiaPluginApiBreakpoints encoding_uri_library [example_source_breakpoint]))
     = [(''file:///a'', 5, Some ''x'')]
   \<and> location (example_wire_breakpoint\<lparr>location := None\<rparr>) = None
   \<and> toInternalBreakpoints encoding_uri_library example_main
        [example_wire_breakpoint, example_wire_breakpoint\<lparr>location := None\<rparr>]
     = toInternalBreakpoints encoding_uri_library example_main [example_wire_breakpoint]"
proof -
  note spec = breakpoint_translation_line_condition
      [of encoding_uri_library "[example_source_breakpoint]" example_main
        "[example_wire_breakpoint]" "[example_wire_breakpoint]" "[]"]
  have trip:
    "map (\<lambda>d. (sb_uri (origin d), raw_line (raw (origin d)), raw_condition (raw (origin d))))
       (toInternalBreakpoints encoding_uri_library example_main
          (toTheiaPluginApiBreakpoints encoding_uri_library [example_source_breakpoint]))
     = map (\<lambda>sb. (uri_toString encoding_uri_library
                    (uri_revive encoding_uri_library
                       (uri_parse encoding_uri_library (sb_uri sb))),
                   raw_line (raw sb), raw_condition (raw sb))) [example_source_breakpoint]"
    by (rule spec [THEN conjunct2, THEN conjunct2, THEN conjunct1])
  have key: "map (\<lambda>sb. (uri_toString encoding_uri_library
                    (uri_revive encoding_uri_library
                       (uri_parse encoding_uri_library (sb_uri sb))),
                   raw_line (raw sb), raw_condition (raw sb))) [example_source_breakpoint]
             = [(''file:///a'', 5, Some ''x'')]"
    by (simp add: example_source_breakpoint_def encoding_uri_library_def example_parse
          example_printed)
  have absent: "location (example_wire_breakpoint\<lparr>location := None\<rparr>) = None"
    by simp
  have dropped: "toInternalBreakpoints encoding_uri_library example_main
        ([example_wire_breakpoint] @ example_wire_breakpoint\<lparr>location := None\<rparr> # [])
     = toInternalBreakpoints encoding_uri_library example_main ([example_wire_breakpoint] @ [])"
    using spec [THEN conjunct2, THEN conjunct2, THEN conjunct2, THEN conjunct1] absent
    by blast
  from trip key absent dropped show ?thesis
    by simp
qed

section \<open>A session creation that fails after the session is stored\<close>

text \<open>
  Claim C10. When the contribution is found, an executable is obtained and the adapter is
  started, the new session is stored under the fresh id; if then ensuring the connection
  fails, or \<^verbatim>\<open>start\<close> throws, \<^verbatim>\<open>$createDebugSession\<close> rejects with that error and the state
  it leaves is the one with the session stored: the registry holds a session under an id
  that was not returned.
\<close>

theorem createDebugSession_failure_keeps_session:
  assumes "debugAdapterContributions this contributionId = Some adapterContribution"
    and "getExecutable env (packageContributions this contributionId) adapterContribution
           debugConfiguration = Inr executable"
    and "startDebugAdapter executable = Inr provider"
    and "session = new_PluginDebugSession uuid debugConfiguration provider
                     (\<lambda>command args. CustomRequest [JString command, args])"
    and "ensureConnection env uuid = Inl e
         \<or> (\<exists>connection. ensureConnection env uuid = Inr connection
               \<and> session_start env session (PluginWebSocketChannel connection) = Inl e)"
  shows "createDebugSession env uuid this contributionId debugConfiguration
           = (Inl e, this\<lparr>debugSessions := (debugSessions this)(uuid \<mapsto> session)\<rparr>)
         \<and> debugSessions (snd (createDebugSession env uuid this contributionId debugConfiguration))
              uuid = Some session
         \<and> session_id session = uuid"
  using assms
  by (auto simp: createDebugSession_def Let_def new_PluginDebugSession_def)

text \<open>
  The registered contribution with a connection manager that refuses: the creation of
  \<^verbatim>\<open>s2\<close> rejects, and \<^verbatim>\<open>s2\<close>, absent before, is in the registry afterwards.
\<close>

theorem createDebugSession_failure_keeps_session_witness:
  "debugSessions registered_ext ''s2'' = None
   \<and> ensureConnection refusing_env ''s2'' = Inl (External ''no connection'')
   \<and> fst (createDebugSession refusing_env ''s2'' registered_ext ''node-contrib-id'' example_config)
       = Inl (External ''no connection'')
   \<and> map_option session_id
        (debugSessions
           (snd (createDebugSession refusing_env ''s2'' registered_ext ''node-contrib-id''
                   example_config)) ''s2'')
       = Some ''s2''"
proof -
  have refused: "ensureConnection refusing_env ''s2'' = Inl (External ''no connection'')"
    by (simp add: refusing_env_def)
  have executable:
    "getExecutable refusing_env (packageContributions registered_ext ''node-contrib-id'')
       (DebugPluginContribution example_env ''node'' example_provider ''/p'') example_config
     = Inr node_executable"
    by (simp add: registered_package example_executable)
  show ?thesis
    using createDebugSession_failure_keeps_session
        [OF registered_contribution executable example_started refl disjI1 [OF refused]]
      refused
    by (simp add: registered_sessions new_PluginDebugSession_def)
qed

end
